theory Spec2Isabelle
  imports Complex_Main
begin

section \<open>Data model of monocle/spawns.py\<close>

text \<open>
  A point is the pair \<open>(lat, lon)\<close>. The source uses Python floats; points are only
  compared for equality (as dictionary and set keys) and against the boundary rectangle,
  so finite floats are read as the real numbers they denote.
\<close>

type_synonym point = "real \<times> real"

text \<open>
  A Python dictionary keeps its keys in insertion order: it is an association list with
  distinct keys. \<open>d[k] = v\<close> overwrites the value of an existing key in place and
  appends a new key at the end; \<open>d[k]\<close> is \<open>map_of d k\<close>, with \<open>None\<close> for KeyError.
\<close>

type_synonym ('k, 'v) pydict = "('k \<times> 'v) list"

fun dict_set :: "('k, 'v) pydict \<Rightarrow> 'k \<Rightarrow> 'v \<Rightarrow> ('k, 'v) pydict" where
  "dict_set [] k v = [(k, v)]"
| "dict_set ((k', v') # d) k v =
     (if k' = k then (k', v) # d else (k', v') # dict_set d k v)"

text \<open>
  The attributes set by \<open>BaseSpawns.__init__\<close>. An entry of \<open>known\<close> is the pair
  \<open>(spawn_id, spawn_seconds)\<close>, or Python's \<open>None\<close> (the placeholder written by
  \<open>MoreSpawns.add_known\<close>). The three attributes \<open>bounds_hash\<close>, \<open>alt_precision\<close>
  and \<open>last_migration\<close> exist on the object only after a snapshot has been restored into
  it (\<open>self.__dict__.update(state)\<close>). \<open>db_hash\<close> is a byte string.
\<close>

record base_spawns =
  known :: "(point, (int \<times> int) option) pydict"
  despawn_times :: "(int, int) pydict"
  unknown :: "point set"
  altitudes :: "(point, real) pydict"
  class_version :: int
  db_hash :: string
  bounds_hash :: "int option"
  alt_precision :: "int option"
  last_migration :: "int option"

text \<open>\<open>MoreSpawns\<close> adds the set \<open>cell_points\<close>; \<open>Spawns\<close> adds nothing that is stored.\<close>

record more_spawns = base_spawns +
  cell_points :: "point set"

section \<open>Despawn instants\<close>

definition get_current_hour :: "real \<Rightarrow> int" where
  \<comment> \<open>Modelled from the spec: \<open>utils.get_current_hour\<close> is not among the sources; the spec
      gives it as the start of the hour containing the given timestamp.\<close>
  "get_current_hour now = 3600 * \<lfloor>now / 3600\<rfloor>"

definition get_despawn_time :: "'a base_spawns_scheme \<Rightarrow> int \<Rightarrow> real \<Rightarrow> int option" where
  "get_despawn_time self spawn_id seen =
     (let hour = get_current_hour seen in
      case map_of (despawn_times self) spawn_id of
        None \<Rightarrow> None
      | Some d \<Rightarrow>
          (let despawn_time = d + hour in
           if seen > real_of_int despawn_time then Some (despawn_time + 3600)
           else Some despawn_time))"


section \<open>The environment: configuration, boundary and external services\<close>

text \<open>
  The modules \<open>sanitized\<close> (as \<open>conf\<close>), \<open>bounds\<close>, \<open>db\<close> and \<open>utils\<close> are not among the
  sources; what \<open>spawns.py\<close> reads from them is a parameter. \<open>BOUNDARIES\<close> is
  \<open>bool(conf.BOUNDARIES)\<close>, \<open>contains\<close> is \<open>point in bounds\<close>, \<open>hash_bounds\<close> is
  \<open>hash(bounds)\<close>, and \<open>get_all_altitudes\<close> receives \<open>None\<close> when it is called without
  an argument.
\<close>

record env =
  ALT_PRECISION :: int
  LAST_MIGRATION :: int
  BOUNDARIES :: bool
  STAY_WITHIN_MAP :: bool
  south :: real
  north :: real
  west :: real
  east :: real
  contains :: "point \<Rightarrow> bool"
  hash_bounds :: int
  round_coords :: "point \<Rightarrow> int \<Rightarrow> point"
  get_all_altitudes :: "bool option \<Rightarrow> (point, real) pydict"

text \<open>A row of \<open>db.Spawnpoint\<close>; \<open>updated\<close> and \<open>alt\<close> may be NULL (\<open>None\<close>).\<close>

record spawnpoint =
  sp_spawn_id :: int
  sp_lat :: real
  sp_lon :: real
  sp_alt :: "real option"
  sp_updated :: "int option"
  sp_duration :: int
  sp_despawn_time :: int

section \<open>Reconciliation: \<open>BaseSpawns.update\<close>\<close>

definition query :: "env \<Rightarrow> spawnpoint list \<Rightarrow> spawnpoint list" where
  "query cfg rows =
     (if BOUNDARIES cfg \<or> STAY_WITHIN_MAP cfg
      then filter (\<lambda>spawn. sp_lat spawn \<ge> south cfg \<and> sp_lat spawn \<le> north cfg \<and>
                            sp_lon spawn \<ge> west cfg \<and> sp_lon spawn \<le> east cfg) rows
      else rows)"

text \<open>
  One iteration of the loop over the query, on the object and the local dictionary
  \<open>known\<close>. \<open>not spawn.updated\<close> holds for \<open>None\<close> and for \<open>0\<close>.
\<close>

definition update_body ::
  "env \<Rightarrow> bool \<Rightarrow> spawnpoint \<Rightarrow>
   'a base_spawns_scheme \<times> (point, int \<times> int) pydict \<Rightarrow>
   'a base_spawns_scheme \<times> (point, int \<times> int) pydict" where
  "update_body cfg alts spawn acc =
     (let self = fst acc; known = snd acc;
          point = (sp_lat spawn, sp_lon spawn) in
      if BOUNDARIES cfg \<and> \<not> contains cfg point then (self, known)
      else
        let self1 =
              (case sp_alt spawn of
                 Some a \<Rightarrow>
                   if alts
                   then self\<lparr>altitudes :=
                          dict_set (altitudes self) (round_coords cfg point (ALT_PRECISION cfg)) a\<rparr>
                   else self
               | None \<Rightarrow> self) in
        if (case sp_updated spawn of None \<Rightarrow> True
            | Some u \<Rightarrow> u = 0 \<or> u \<le> LAST_MIGRATION cfg)
        then (self1\<lparr>unknown := insert point (unknown self1)\<rparr>, known)
        else
          let spawn_time =
                (if sp_duration spawn = 60 then sp_despawn_time spawn
                 else (sp_despawn_time spawn + 1800) mod 3600) in
          (self1\<lparr>despawn_times :=
               dict_set (despawn_times self1) (sp_spawn_id spawn) (sp_despawn_time spawn)\<rparr>,
           dict_set known point (sp_spawn_id spawn, spawn_time)))"

text \<open>
  \<open>sorted\<close> is stable, as \<open>sort_key\<close> is; \<open>rows\<close> is the table in the order the
  store yields it.
\<close>

definition update :: "env \<Rightarrow> spawnpoint list \<Rightarrow> 'a base_spawns_scheme \<Rightarrow> 'a base_spawns_scheme" where
  "update cfg rows self =
     (let alts = (altitudes self = []);
          bound = BOUNDARIES cfg;
          acc = fold (update_body cfg alts) (query cfg rows) (self, []);
          self1 = (fst acc)\<lparr>known :=
                     map (\<lambda>k. (fst k, Some (snd k))) (sort_key (\<lambda>k. snd (snd k)) (snd acc))\<rparr>
      in if altitudes self1 = []
         then self1\<lparr>altitudes := get_all_altitudes cfg (Some bound)\<rparr>
         else self1)"

section \<open>The altitude cache: \<open>BaseSpawns.get_altitude\<close>\<close>

text \<open>
  What \<open>utils.get_altitude(point)\<close> does: it returns an elevation or raises. The draw of
  \<open>uniform\<close> and the value of \<open>random_altitude()\<close> are arguments.
\<close>

datatype fetch_result = Fetched real | IndexError | KeyError | OtherException

definition get_altitude ::
  "env \<Rightarrow> (real \<Rightarrow> real \<Rightarrow> real) \<Rightarrow> (point \<Rightarrow> fetch_result) \<Rightarrow> real \<Rightarrow>
   point \<Rightarrow> real \<Rightarrow> 'a base_spawns_scheme \<Rightarrow> real \<times> 'a base_spawns_scheme" where
  "get_altitude cfg uniform fetch random_altitude pt randomize self =
     (let point = round_coords cfg pt (ALT_PRECISION cfg) in
      case map_of (altitudes self) point of
        Some alt \<Rightarrow>
          (if randomize \<noteq> 0 then uniform (alt - randomize) (alt + randomize) else alt, self)
      | None \<Rightarrow>
          (case fetch point of
             Fetched alt \<Rightarrow> (alt, self\<lparr>altitudes := dict_set (altitudes self) point alt\<rparr>)
           | IndexError \<Rightarrow> (random_altitude, self)
           | KeyError \<Rightarrow> (random_altitude, self)
           | OtherException \<Rightarrow> (random_altitude, self)))"

section \<open>\<open>BaseSpawns.after_last\<close>\<close>

definition second_of_hour :: "real \<Rightarrow> real" where
  \<comment> \<open>\<open>time() % 3600\<close>: Python's remainder for a positive modulus.\<close>
  "second_of_hour now = now - 3600 * real_of_int \<lfloor>now / 3600\<rfloor>"

definition after_last :: "'a base_spawns_scheme \<Rightarrow> real \<Rightarrow> bool" where
  \<comment> \<open>\<open>now\<close> is the value of \<open>time()\<close>. The three \<open>False\<close> branches are StopIteration
      (no key), KeyError and TypeError (\<open>None[1]\<close>).\<close>
  "after_last self now =
     (case rev (map fst (known self)) of
        [] \<Rightarrow> False
      | k # _ \<Rightarrow>
          (case map_of (known self) k of
             None \<Rightarrow> False
           | Some None \<Rightarrow> False
           | Some (Some entry) \<Rightarrow> second_of_hour now > real_of_int (snd entry)))"

section \<open>Snapshots: \<open>pickle\<close> and \<open>unpickle\<close>\<close>

text \<open>
  The pickled \<open>state\<close> is a dictionary from attribute names to values; a field is \<open>None\<close>
  when the key is absent. \<open>load_pickle('spawns', raise_exception=True)\<close> raises
  FileNotFoundError or returns the stored object, which is such a dictionary or an object
  whose subscription raises TypeError.
\<close>

record snapshot =
  st_known :: "(point, (int \<times> int) option) pydict option"
  st_despawn_times :: "(int, int) pydict option"
  st_unknown :: "point set option"
  st_altitudes :: "(point, real) pydict option"
  st_class_version :: "int option"
  st_db_hash :: "string option"
  st_cell_points :: "point set option"
  st_bounds_hash :: "int option"
  st_alt_precision :: "int option"
  st_last_migration :: "int option"

datatype pickle_file = FileNotFound | NotADict | StateDict snapshot

definition or_else :: "'v option \<Rightarrow> 'v \<Rightarrow> 'v" where
  "or_else new old = (case new of Some v \<Rightarrow> v | None \<Rightarrow> old)"

definition dict_update :: "snapshot \<Rightarrow> 'a base_spawns_scheme \<Rightarrow> 'a base_spawns_scheme" where
  \<comment> \<open>\<open>self.__dict__.update(state)\<close> on the attributes of \<open>BaseSpawns\<close>.\<close>
  "dict_update st self =
     self\<lparr>known := or_else (st_known st) (known self),
          despawn_times := or_else (st_despawn_times st) (despawn_times self),
          unknown := or_else (st_unknown st) (unknown self),
          altitudes := or_else (st_altitudes st) (altitudes self),
          class_version := or_else (st_class_version st) (class_version self),
          db_hash := or_else (st_db_hash st) (db_hash self),
          bounds_hash := (case st_bounds_hash st of Some v \<Rightarrow> Some v | None \<Rightarrow> bounds_hash self),
          alt_precision := (case st_alt_precision st of Some v \<Rightarrow> Some v
                            | None \<Rightarrow> alt_precision self),
          last_migration := (case st_last_migration st of Some v \<Rightarrow> Some v
                             | None \<Rightarrow> last_migration self)\<rparr>"

definition Spawns_dict_update :: "snapshot \<Rightarrow> base_spawns \<Rightarrow> base_spawns" where
  \<comment> \<open>A restored \<open>cell_points\<close> is deleted again by \<open>Spawns.unpickle\<close>.\<close>
  "Spawns_dict_update st self = dict_update st self"

definition MoreSpawns_dict_update :: "snapshot \<Rightarrow> more_spawns \<Rightarrow> more_spawns" where
  "MoreSpawns_dict_update st self =
     (dict_update st self)\<lparr>cell_points := or_else (st_cell_points st) (cell_points self)\<rparr>"

text \<open>
  \<open>BaseSpawns.unpickle\<close>; \<open>upd\<close> is \<open>self.__dict__.update\<close> for the class of \<open>self\<close>.
  The tuple given to \<open>all\<close> is built first, so a missing key among the four raises
  KeyError whatever the others hold.
\<close>

definition BaseSpawns_unpickle ::
  "(snapshot \<Rightarrow> 'a base_spawns_scheme \<Rightarrow> 'a base_spawns_scheme) \<Rightarrow> env \<Rightarrow> pickle_file \<Rightarrow>
   'a base_spawns_scheme \<Rightarrow> bool \<times> 'a base_spawns_scheme" where
  "BaseSpawns_unpickle upd cfg file self =
     (case file of
        FileNotFound \<Rightarrow> (False, self)
      | NotADict \<Rightarrow> (False, self)
      | StateDict st \<Rightarrow>
          (case (st_class_version st, st_db_hash st, st_bounds_hash st, st_last_migration st) of
             (Some cv, Some dh, Some bh, Some lm) \<Rightarrow>
               if cv = class_version self \<and> dh = db_hash self \<and> bh = hash_bounds cfg \<and>
                  lm = LAST_MIGRATION cfg
               then
                 let self1 = upd st self in
                 (case st_alt_precision st of
                    None \<Rightarrow> (False, self1)
                  | Some ap \<Rightarrow>
                      if ap \<noteq> ALT_PRECISION cfg
                      then (True, self1\<lparr>altitudes := get_all_altitudes cfg None\<rparr>)
                      else (True, self1))
               else (False, self)
           | _ \<Rightarrow> (False, self)))"

definition Spawns_unpickle :: "env \<Rightarrow> pickle_file \<Rightarrow> base_spawns \<Rightarrow> bool \<times> base_spawns" where
  "Spawns_unpickle cfg file self = BaseSpawns_unpickle Spawns_dict_update cfg file self"

definition MoreSpawns_unpickle :: "env \<Rightarrow> pickle_file \<Rightarrow> more_spawns \<Rightarrow> bool \<times> more_spawns" where
  "MoreSpawns_unpickle cfg file self = BaseSpawns_unpickle MoreSpawns_dict_update cfg file self"

text \<open>
  \<open>BaseSpawns.pickle\<close>: the copy of \<open>__dict__\<close> without \<open>log\<close> and \<open>cells_count\<close>, with
  the three configuration keys overwritten. \<open>extra\<close> is the attribute \<open>cell_points\<close>
  of the subclass, if it has one. The result is what \<open>dump_pickle\<close> receives.
\<close>

definition BaseSpawns_pickle :: "point set option \<Rightarrow> env \<Rightarrow> 'a base_spawns_scheme \<Rightarrow> snapshot" where
  "BaseSpawns_pickle extra cfg self =
     \<lparr>st_known = Some (known self),
      st_despawn_times = Some (despawn_times self),
      st_unknown = Some (unknown self),
      st_altitudes = Some (altitudes self),
      st_class_version = Some (class_version self),
      st_db_hash = Some (db_hash self),
      st_cell_points = extra,
      st_bounds_hash = Some (hash_bounds cfg),
      st_alt_precision = Some (ALT_PRECISION cfg),
      st_last_migration = Some (LAST_MIGRATION cfg)\<rparr>"

definition Spawns_pickle :: "env \<Rightarrow> base_spawns \<Rightarrow> snapshot" where
  "Spawns_pickle cfg self = BaseSpawns_pickle None cfg self"

definition MoreSpawns_pickle :: "env \<Rightarrow> more_spawns \<Rightarrow> snapshot" where
  "MoreSpawns_pickle cfg self = BaseSpawns_pickle (Some (cell_points self)) cfg self"

section \<open>The two registries: \<open>Spawns\<close> and \<open>MoreSpawns\<close>\<close>

definition Spawns_add_known :: "int \<Rightarrow> int \<Rightarrow> point \<Rightarrow> base_spawns \<Rightarrow> base_spawns" where
  "Spawns_add_known sid dtime pt self =
     self\<lparr>despawn_times := dict_set (despawn_times self) sid dtime,
          unknown := unknown self - {pt}\<rparr>"

definition Spawns_add_unknown :: "point \<Rightarrow> base_spawns \<Rightarrow> base_spawns" where
  "Spawns_add_unknown pt self = self\<lparr>unknown := insert pt (unknown self)\<rparr>"

definition MoreSpawns_add_known :: "int \<Rightarrow> int \<Rightarrow> point \<Rightarrow> more_spawns \<Rightarrow> more_spawns" where
  "MoreSpawns_add_known sid dtime pt self =
     self\<lparr>despawn_times := dict_set (despawn_times self) sid dtime,
          known := dict_set (known self) pt None,
          unknown := unknown self - {pt},
          cell_points := cell_points self - {pt}\<rparr>"

definition MoreSpawns_add_unknown :: "point \<Rightarrow> more_spawns \<Rightarrow> more_spawns" where
  "MoreSpawns_add_unknown pt self =
     self\<lparr>unknown := insert pt (unknown self),
          cell_points := cell_points self - {pt}\<rparr>"

definition have_point :: "point \<Rightarrow> more_spawns \<Rightarrow> bool" where
  "have_point pt self =
     (pt \<in> cell_points self \<or> pt \<in> fst ` set (known self) \<or> pt \<in> unknown self)"

text \<open>The objects that \<open>Spawns()\<close> and \<open>MoreSpawns()\<close> construct.\<close>

definition Spawns_init :: "string \<Rightarrow> base_spawns" where
  "Spawns_init dbh =
     \<lparr>known = [], despawn_times = [], unknown = {}, altitudes = [], class_version = 2,
      db_hash = dbh, bounds_hash = None, alt_precision = None, last_migration = None\<rparr>"

definition MoreSpawns_init :: "string \<Rightarrow> more_spawns" where
  "MoreSpawns_init dbh =
     \<lparr>known = [], despawn_times = [], unknown = {}, altitudes = [], class_version = 2,
      db_hash = dbh, bounds_hash = None, alt_precision = None, last_migration = None,
      cell_points = {}\<rparr>"

section \<open>Notions of the specification and sample inputs\<close>

definition four_fields_match :: "env \<Rightarrow> 'a base_spawns_scheme \<Rightarrow> snapshot \<Rightarrow> bool" where
  \<comment> \<open>The snapshot carries the structure version, the store fingerprint, the boundary
      fingerprint and the last-migration marker of the live configuration.\<close>
  "four_fields_match cfg self st \<longleftrightarrow>
     st_class_version st = Some (class_version self) \<and>
     st_db_hash st = Some (db_hash self) \<and>
     st_bounds_hash st = Some (hash_bounds cfg) \<and>
     st_last_migration st = Some (LAST_MIGRATION cfg)"

definition demo_env :: env where
  "demo_env =
     \<lparr>ALT_PRECISION = 2, LAST_MIGRATION = 1000, BOUNDARIES = False, STAY_WITHIN_MAP = False,
      south = 0, north = 10, west = 0, east = 10, contains = (\<lambda>p. True), hash_bounds = 42,
      round_coords = (\<lambda>p n. p), get_all_altitudes = (\<lambda>b. [((0, 0), 7)])\<rparr>"

definition stale_snapshot :: snapshot where
  "stale_snapshot =
     Spawns_pickle (demo_env\<lparr>ALT_PRECISION := 3\<rparr>)
       ((Spawns_init ''db'')\<lparr>known := [((1, 2), Some (1, 100))]\<rparr>)"

definition demo_spawns :: base_spawns where
  "demo_spawns =
     (Spawns_init ''db'')
       \<lparr>known := [((1, 2), Some (1, 100)), ((3, 4), Some (2, 2000))],
        despawn_times := [(1, 100), (2, 200)],
        unknown := {(5, 6)},
        altitudes := [((1, 2), 15)]\<rparr>"

definition demo_more :: more_spawns where
  "demo_more =
     (MoreSpawns_init ''db'')
       \<lparr>known := [((1, 2), Some (1, 100))],
        despawn_times := [(1, 100)],
        unknown := {(5, 6)},
        cell_points := {(7, 8)}\<rparr>"

definition timed :: "env \<Rightarrow> spawnpoint \<Rightarrow> bool" where
  \<comment> \<open>A record that survives the boundary test and whose update timestamp is present,
      not zero and newer than the last-migration marker.\<close>
  "timed cfg spawn \<longleftrightarrow>
     \<not> (BOUNDARIES cfg \<and> \<not> contains cfg (sp_lat spawn, sp_lon spawn)) \<and>
     (case sp_updated spawn of None \<Rightarrow> False | Some u \<Rightarrow> u \<noteq> 0 \<and> LAST_MIGRATION cfg < u)"

definition demo_rows :: "spawnpoint list" where
  "demo_rows =
     [\<lparr>sp_spawn_id = 2, sp_lat = 3, sp_lon = 4, sp_alt = None, sp_updated = Some 2000,
       sp_duration = 30, sp_despawn_time = 200\<rparr>,
      \<lparr>sp_spawn_id = 1, sp_lat = 1, sp_lon = 2, sp_alt = Some 15, sp_updated = Some 2000,
       sp_duration = 60, sp_despawn_time = 100\<rparr>,
      \<lparr>sp_spawn_id = 3, sp_lat = 5, sp_lon = 6, sp_alt = None, sp_updated = None,
       sp_duration = 60, sp_despawn_time = 300\<rparr>]"


definition demo_known :: "(point, (int \<times> int) option) pydict" where
  "demo_known = [((1, 2), Some (1, 100)), ((3, 4), Some (2, 2000))]"

text \<open>
  The seconds held by the entries of the known mapping that are not placeholders, in the
  order of the mapping; the mapping is sorted when it has no placeholder and these seconds
  ascend.
\<close>

fun stored_seconds :: "(point, (int \<times> int) option) pydict \<Rightarrow> int list" where
  "stored_seconds [] = []"
| "stored_seconds ((p, None) # d) = stored_seconds d"
| "stored_seconds ((p, Some entry) # d) = snd entry # stored_seconds d"

definition known_sorted :: "(point, (int \<times> int) option) pydict \<Rightarrow> bool" where
  "known_sorted d \<longleftrightarrow> list_all (\<lambda>e. snd e \<noteq> None) d \<and> sorted (stored_seconds d)"

text \<open>
  A call of \<open>add_known(spawn_id, despawn_time, point)\<close> or \<open>add_unknown(point)\<close>, the
  point it names, and a sequence of calls applied to each registry. The number of buckets
  that hold a point is what the bucket invariant of the specification counts.
\<close>

datatype call = AddKnown int int point | AddUnknown point

fun call_point :: "call \<Rightarrow> point" where
  "call_point (AddKnown sid dtime pt) = pt"
| "call_point (AddUnknown pt) = pt"

fun is_add_unknown :: "call \<Rightarrow> bool" where
  "is_add_unknown (AddKnown sid dtime pt) = False"
| "is_add_unknown (AddUnknown pt) = True"

fun Spawns_call :: "call \<Rightarrow> base_spawns \<Rightarrow> base_spawns" where
  "Spawns_call (AddKnown sid dtime pt) self = Spawns_add_known sid dtime pt self"
| "Spawns_call (AddUnknown pt) self = Spawns_add_unknown pt self"

fun MoreSpawns_call :: "call \<Rightarrow> more_spawns \<Rightarrow> more_spawns" where
  "MoreSpawns_call (AddKnown sid dtime pt) self = MoreSpawns_add_known sid dtime pt self"
| "MoreSpawns_call (AddUnknown pt) self = MoreSpawns_add_unknown pt self"

definition last_call_for :: "point \<Rightarrow> call list \<Rightarrow> call option" where
  "last_call_for p cs =
     (case rev (filter (\<lambda>c. call_point c = p) cs) of [] \<Rightarrow> None | c # _ \<Rightarrow> Some c)"

definition Spawns_buckets :: "base_spawns \<Rightarrow> point \<Rightarrow> nat" where
  "Spawns_buckets self p =
     (if p \<in> set (map fst (known self)) then 1 else 0) + (if p \<in> unknown self then 1 else 0)"

definition MoreSpawns_buckets :: "more_spawns \<Rightarrow> point \<Rightarrow> nat" where
  "MoreSpawns_buckets self p =
     (if p \<in> set (map fst (known self)) then 1 else 0) + (if p \<in> unknown self then 1 else 0)
     + (if p \<in> cell_points self then 1 else 0)"

section \<open>Properties of despawn instants\<close>

lemma get_current_hour_multiple: "get_current_hour now mod 3600 = 0"
  by (simp add: get_current_hour_def)

lemma get_current_hour_le: "real_of_int (get_current_hour now) \<le> now"
proof -
  have "real_of_int \<lfloor>now / 3600\<rfloor> \<le> now / 3600" by (rule of_int_floor_le)
  then show ?thesis by (simp add: get_current_hour_def field_simps)
qed

lemma get_current_hour_gt: "now < real_of_int (get_current_hour now) + 3600"
proof -
  have "now / 3600 < real_of_int \<lfloor>now / 3600\<rfloor> + 1" by linarith
  then show ?thesis by (simp add: get_current_hour_def field_simps)
qed

text \<open>
  C3: \<open>get_despawn_time\<close> adds the stored despawn-second of the identifier to the start of
  the hour containing \<open>seen\<close> (the multiple \<open>h\<close> of 3600 with \<open>h \<le> seen < h + 3600\<close>), and a
  further 3600 seconds when \<open>seen\<close> is after that instant; it returns \<open>None\<close> exactly when
  the identifier is not a key of \<open>despawn_times\<close>.
\<close>

theorem get_despawn_time_instant:
  "(\<forall>d. map_of (despawn_times self) spawn_id = Some d \<longrightarrow>
      (\<exists>h. h mod 3600 = 0 \<and> real_of_int h \<le> seen \<and> seen < real_of_int h + 3600 \<and>
           get_despawn_time self spawn_id seen =
             Some (if seen > real_of_int (h + d) then h + d + 3600 else h + d)))
   \<and> (get_despawn_time self spawn_id seen = None
        \<longleftrightarrow> spawn_id \<notin> fst ` set (despawn_times self))"
proof (intro conjI allI impI)
  fix d
  assume d: "map_of (despawn_times self) spawn_id = Some d"
  let ?h = "get_current_hour seen"
  have "get_despawn_time self spawn_id seen =
          Some (if seen > real_of_int (?h + d) then ?h + d + 3600 else ?h + d)"
    using d by (simp add: get_despawn_time_def Let_def add.commute)
  then show "\<exists>h. h mod 3600 = 0 \<and> real_of_int h \<le> seen \<and> seen < real_of_int h + 3600 \<and>
           get_despawn_time self spawn_id seen =
             Some (if seen > real_of_int (h + d) then h + d + 3600 else h + d)"
    using get_current_hour_multiple get_current_hour_le get_current_hour_gt by blast
next
  show "get_despawn_time self spawn_id seen = None
        \<longleftrightarrow> spawn_id \<notin> fst ` set (despawn_times self)"
    by (auto simp: get_despawn_time_def Let_def map_of_eq_None_iff split: option.splits
          dest: map_of_SomeD intro: rev_image_eqI)
qed


theorem get_despawn_time_instant_witness:
  "map_of (despawn_times ((Spawns_init ''db'')\<lparr>despawn_times := [(7, 100)]\<rparr>)) 7 = Some 100 \<and>
   (\<exists>h. h mod 3600 = 0 \<and> real_of_int h \<le> 7300 \<and> (7300::real) < real_of_int h + 3600 \<and>
        get_despawn_time ((Spawns_init ''db'')\<lparr>despawn_times := [(7, 100)]\<rparr>) 7 7300 =
          Some (if (7300::real) > real_of_int (h + 100) then h + 100 + 3600 else h + 100))"
proof -
  have d: "map_of (despawn_times ((Spawns_init ''db'')\<lparr>despawn_times := [(7, 100)]\<rparr>)) 7 = Some 100"
    by (simp add: Spawns_init_def)
  show ?thesis
    using d get_despawn_time_instant
            [of "(Spawns_init ''db'')\<lparr>despawn_times := [(7, 100)]\<rparr>" 7 7300,
             THEN conjunct1, rule_format, OF d]
    by simp
qed

text \<open>
  C10: when the identifier has a stored despawn-second in \<open>[0, 3600)\<close>, the instant \<open>t\<close>
  returned for an observation at \<open>seen\<close> satisfies \<open>seen \<le> t < seen + 3600\<close>.
\<close>

theorem get_despawn_time_window:
  assumes "map_of (despawn_times self) spawn_id = Some d" and "0 \<le> d" and "d < 3600"
  shows "\<exists>t. get_despawn_time self spawn_id seen = Some t \<and>
             seen \<le> real_of_int t \<and> real_of_int t < seen + 3600"
proof -
  let ?h = "get_current_hour seen"
  have lo: "real_of_int ?h \<le> seen" by (rule get_current_hour_le)
  have hi: "seen < real_of_int ?h + 3600" by (rule get_current_hour_gt)
  show ?thesis
  proof (cases "seen > real_of_int (d + ?h)")
    case True
    then have "get_despawn_time self spawn_id seen = Some (d + ?h + 3600)"
      using assms(1) by (simp add: get_despawn_time_def Let_def)
    moreover have "seen \<le> real_of_int (d + ?h + 3600)" using hi assms(2) by simp
    moreover have "real_of_int (d + ?h + 3600) < seen + 3600" using True by simp
    ultimately show ?thesis by blast
  next
    case False
    then have "get_despawn_time self spawn_id seen = Some (d + ?h)"
      using assms(1) by (simp add: get_despawn_time_def Let_def)
    moreover have "seen \<le> real_of_int (d + ?h)" using False by simp
    moreover have "real_of_int (d + ?h) < seen + 3600" using lo assms(3) by simp
    ultimately show ?thesis by blast
  qed
qed

theorem get_despawn_time_window_witness:
  "\<exists>t. get_despawn_time ((Spawns_init ''db'')\<lparr>despawn_times := [(7, 100)]\<rparr>) 7 7300.5 = Some t \<and>
       7300.5 \<le> real_of_int t \<and> real_of_int t < 7300.5 + 3600"
  using get_despawn_time_window
          [of "(Spawns_init ''db'')\<lparr>despawn_times := [(7, 100)]\<rparr>" 7 100 "7300.5"]
  by (simp add: Spawns_init_def)

section \<open>Dictionaries\<close>

lemma map_of_dict_set: "map_of (dict_set d k v) = (map_of d)(k \<mapsto> v)"
  by (induction d) (auto simp: fun_eq_iff)

section \<open>Restoring a snapshot\<close>

lemma unpickle_match:
  assumes "four_fields_match cfg self st"
  shows "BaseSpawns_unpickle upd cfg (StateDict st) self =
           (case st_alt_precision st of
              None \<Rightarrow> (False, upd st self)
            | Some ap \<Rightarrow>
                if ap \<noteq> ALT_PRECISION cfg
                then (True, (upd st self)\<lparr>altitudes := get_all_altitudes cfg None\<rparr>)
                else (True, upd st self))"
  using assms by (simp add: BaseSpawns_unpickle_def four_fields_match_def Let_def)

lemma unpickle_mismatch:
  assumes "\<not> four_fields_match cfg self st"
  shows "BaseSpawns_unpickle upd cfg (StateDict st) self = (False, self)"
  using assms
  by (auto simp: BaseSpawns_unpickle_def four_fields_match_def split: option.splits)

lemma unpickle_no_dict:
  "BaseSpawns_unpickle upd cfg FileNotFound self = (False, self)"
  "BaseSpawns_unpickle upd cfg NotADict self = (False, self)"
  by (simp_all add: BaseSpawns_unpickle_def)

lemma unpickle_accept_iff:
  "fst (BaseSpawns_unpickle upd cfg loaded self) \<longleftrightarrow>
     (\<exists>st. loaded = StateDict st \<and> four_fields_match cfg self st \<and> st_alt_precision st \<noteq> None)"
proof (cases loaded)
  case (StateDict st)
  then show ?thesis
    by (cases "four_fields_match cfg self st")
       (auto simp: unpickle_match unpickle_mismatch split: option.splits)
qed (simp_all add: unpickle_no_dict)

section \<open>The altitude cache\<close>

text \<open>
  C6: on a miss of the rounded point, each of the three failures of the fetch makes
  \<open>get_altitude\<close> return the value of \<open>random_altitude()\<close> with the object, and so the
  cache, as it was, so that a later call fetches again; the result is always a value, never
  an error. A successful fetch is returned and stored under the rounded point.
\<close>

theorem get_altitude_miss:
  assumes "map_of (altitudes self) (round_coords cfg pt (ALT_PRECISION cfg)) = None"
  shows "(fetch (round_coords cfg pt (ALT_PRECISION cfg)) \<in> {IndexError, KeyError, OtherException} \<longrightarrow>
            get_altitude cfg uniform fetch random_altitude pt randomize self = (random_altitude, self) \<and>
            (\<forall>fetch2 rnd2 a. fetch2 (round_coords cfg pt (ALT_PRECISION cfg)) = Fetched a \<longrightarrow>
               fst (get_altitude cfg uniform fetch2 rnd2 pt randomize
                      (snd (get_altitude cfg uniform fetch random_altitude pt randomize self))) = a))
       \<and> (\<forall>a. fetch (round_coords cfg pt (ALT_PRECISION cfg)) = Fetched a \<longrightarrow>
            get_altitude cfg uniform fetch random_altitude pt randomize self =
              (a, self\<lparr>altitudes :=
                        dict_set (altitudes self) (round_coords cfg pt (ALT_PRECISION cfg)) a\<rparr>) \<and>
            map_of (altitudes (snd (get_altitude cfg uniform fetch random_altitude pt randomize self)))
                   (round_coords cfg pt (ALT_PRECISION cfg)) = Some a)"
  using assms by (auto simp: get_altitude_def Let_def map_of_dict_set)

theorem get_altitude_miss_witness:
  "map_of (altitudes (Spawns_init ''db'')) (round_coords demo_env (1, 2) (ALT_PRECISION demo_env)) = None \<and>
   get_altitude demo_env (\<lambda>a b. a) (\<lambda>p. KeyError) 33 (1, 2) 0 (Spawns_init ''db'')
     = (33, Spawns_init ''db'') \<and>
   fst (get_altitude demo_env (\<lambda>a b. a) (\<lambda>p. Fetched 12) 34 (1, 2) 0
          (snd (get_altitude demo_env (\<lambda>a b. a) (\<lambda>p. KeyError) 33 (1, 2) 0 (Spawns_init ''db'')))) = 12 \<and>
   map_of (altitudes (snd (get_altitude demo_env (\<lambda>a b. a) (\<lambda>p. Fetched 12) 34 (1, 2) 0
          (Spawns_init ''db'')))) (round_coords demo_env (1, 2) (ALT_PRECISION demo_env)) = Some 12"
proof -
  have h: "map_of (altitudes (Spawns_init ''db''))
             (round_coords demo_env (1, 2) (ALT_PRECISION demo_env)) = None"
    by (simp add: Spawns_init_def)
  note fail = get_altitude_miss [OF h, of "\<lambda>p. KeyError" "\<lambda>a b. a" 33 0, THEN conjunct1]
  note good = get_altitude_miss [OF h, of "\<lambda>p. Fetched 12" "\<lambda>a b. a" 34 0, THEN conjunct2]
  have 1: "get_altitude demo_env (\<lambda>a b. a) (\<lambda>p. KeyError) 33 (1, 2) 0 (Spawns_init ''db'')
             = (33, Spawns_init ''db'')"
    using fail by simp
  have 2: "fst (get_altitude demo_env (\<lambda>a b. a) (\<lambda>p. Fetched 12) 34 (1, 2) 0
          (snd (get_altitude demo_env (\<lambda>a b. a) (\<lambda>p. KeyError) 33 (1, 2) 0 (Spawns_init ''db'')))) = 12"
    using fail [THEN mp, THEN conjunct2, rule_format, of "\<lambda>p. Fetched 12" 12 34] by simp
  have 3: "map_of (altitudes (snd (get_altitude demo_env (\<lambda>a b. a) (\<lambda>p. Fetched 12) 34 (1, 2) 0
          (Spawns_init ''db'')))) (round_coords demo_env (1, 2) (ALT_PRECISION demo_env)) = Some 12"
    by (rule good [rule_format, OF refl, THEN conjunct2])
  show ?thesis using h 1 2 3 by blast
qed

section \<open>Snapshot acceptance and round trip\<close>

lemma pickle_fields [simp]:
  "st_class_version (BaseSpawns_pickle extra cfg self) = Some (class_version self)"
  "st_db_hash (BaseSpawns_pickle extra cfg self) = Some (db_hash self)"
  "st_bounds_hash (BaseSpawns_pickle extra cfg self) = Some (hash_bounds cfg)"
  "st_last_migration (BaseSpawns_pickle extra cfg self) = Some (LAST_MIGRATION cfg)"
  "st_alt_precision (BaseSpawns_pickle extra cfg self) = Some (ALT_PRECISION cfg)"
  "st_known (BaseSpawns_pickle extra cfg self) = Some (known self)"
  "st_despawn_times (BaseSpawns_pickle extra cfg self) = Some (despawn_times self)"
  "st_unknown (BaseSpawns_pickle extra cfg self) = Some (unknown self)"
  "st_altitudes (BaseSpawns_pickle extra cfg self) = Some (altitudes self)"
  "st_cell_points (BaseSpawns_pickle extra cfg self) = extra"
  by (simp_all add: BaseSpawns_pickle_def)

lemma dict_update_fields [simp]:
  "known (dict_update st self) = or_else (st_known st) (known self)"
  "despawn_times (dict_update st self) = or_else (st_despawn_times st) (despawn_times self)"
  "unknown (dict_update st self) = or_else (st_unknown st) (unknown self)"
  "altitudes (dict_update st self) = or_else (st_altitudes st) (altitudes self)"
  by (simp_all add: dict_update_def)

lemma or_else_simps [simp]: "or_else (Some v) old = v" "or_else None old = old"
  by (simp_all add: or_else_def)

text \<open>
  C4, as stated, fails: a snapshot written under altitude precision 3 is accepted under
  precision 2, the other four fields being those of the live configuration.
\<close>

theorem unpickle_ignores_precision_counterexample:
  "fst (Spawns_unpickle demo_env (StateDict stale_snapshot) (Spawns_init ''db'')) = True \<and>
   st_alt_precision stale_snapshot \<noteq> Some (ALT_PRECISION demo_env)"
  by (simp add: stale_snapshot_def Spawns_unpickle_def Spawns_pickle_def
        unpickle_match four_fields_match_def demo_env_def Spawns_init_def)

text \<open>
  C4, amended: in both registries \<open>unpickle\<close> returns true exactly when the loaded object
  is a dictionary whose structure version, store fingerprint, boundary fingerprint and
  last-migration marker are those of the live configuration and which has an
  altitude-precision entry; the restored state then replaces the attributes (with the
  altitudes re-seeded when the precision differs). A missing file, an object that is not a
  dictionary, or a dictionary where one of the four fields is absent or different gives
  false and leaves the object as it was.
\<close>

theorem unpickle_accepts_iff_four_match:
  "(fst (Spawns_unpickle cfg loaded s) \<longleftrightarrow>
      (\<exists>st. loaded = StateDict st \<and> four_fields_match cfg s st \<and> st_alt_precision st \<noteq> None))
   \<and> (fst (MoreSpawns_unpickle cfg loaded m) \<longleftrightarrow>
      (\<exists>st. loaded = StateDict st \<and> four_fields_match cfg m st \<and> st_alt_precision st \<noteq> None))
   \<and> (\<forall>st ap. loaded = StateDict st \<and> four_fields_match cfg s st \<and> st_alt_precision st = Some ap \<longrightarrow>
        snd (Spawns_unpickle cfg loaded s) =
          (if ap \<noteq> ALT_PRECISION cfg
           then (Spawns_dict_update st s)\<lparr>altitudes := get_all_altitudes cfg None\<rparr>
           else Spawns_dict_update st s))
   \<and> (\<forall>st ap. loaded = StateDict st \<and> four_fields_match cfg m st \<and> st_alt_precision st = Some ap \<longrightarrow>
        snd (MoreSpawns_unpickle cfg loaded m) =
          (if ap \<noteq> ALT_PRECISION cfg
           then (MoreSpawns_dict_update st m)\<lparr>altitudes := get_all_altitudes cfg None\<rparr>
           else MoreSpawns_dict_update st m))
   \<and> ((loaded = FileNotFound \<or> loaded = NotADict \<or>
        (\<exists>st. loaded = StateDict st \<and> \<not> four_fields_match cfg s st)) \<longrightarrow>
        Spawns_unpickle cfg loaded s = (False, s))
   \<and> ((loaded = FileNotFound \<or> loaded = NotADict \<or>
        (\<exists>st. loaded = StateDict st \<and> \<not> four_fields_match cfg m st)) \<longrightarrow>
        MoreSpawns_unpickle cfg loaded m = (False, m))"
proof (intro conjI)
  show "fst (Spawns_unpickle cfg loaded s) \<longleftrightarrow>
      (\<exists>st. loaded = StateDict st \<and> four_fields_match cfg s st \<and> st_alt_precision st \<noteq> None)"
    unfolding Spawns_unpickle_def by (rule unpickle_accept_iff)
  show "fst (MoreSpawns_unpickle cfg loaded m) \<longleftrightarrow>
      (\<exists>st. loaded = StateDict st \<and> four_fields_match cfg m st \<and> st_alt_precision st \<noteq> None)"
    unfolding MoreSpawns_unpickle_def by (rule unpickle_accept_iff)
  show "\<forall>st ap. loaded = StateDict st \<and> four_fields_match cfg s st \<and> st_alt_precision st = Some ap \<longrightarrow>
        snd (Spawns_unpickle cfg loaded s) =
          (if ap \<noteq> ALT_PRECISION cfg
           then (Spawns_dict_update st s)\<lparr>altitudes := get_all_altitudes cfg None\<rparr>
           else Spawns_dict_update st s)"
    by (simp add: Spawns_unpickle_def unpickle_match)
  show "\<forall>st ap. loaded = StateDict st \<and> four_fields_match cfg m st \<and> st_alt_precision st = Some ap \<longrightarrow>
        snd (MoreSpawns_unpickle cfg loaded m) =
          (if ap \<noteq> ALT_PRECISION cfg
           then (MoreSpawns_dict_update st m)\<lparr>altitudes := get_all_altitudes cfg None\<rparr>
           else MoreSpawns_dict_update st m)"
    by (simp add: MoreSpawns_unpickle_def unpickle_match)
  show "(loaded = FileNotFound \<or> loaded = NotADict \<or>
        (\<exists>st. loaded = StateDict st \<and> \<not> four_fields_match cfg s st)) \<longrightarrow>
        Spawns_unpickle cfg loaded s = (False, s)"
    by (auto simp: Spawns_unpickle_def unpickle_no_dict unpickle_mismatch)
  show "(loaded = FileNotFound \<or> loaded = NotADict \<or>
        (\<exists>st. loaded = StateDict st \<and> \<not> four_fields_match cfg m st)) \<longrightarrow>
        MoreSpawns_unpickle cfg loaded m = (False, m)"
    by (auto simp: MoreSpawns_unpickle_def unpickle_no_dict unpickle_mismatch)
qed


theorem unpickle_accepts_iff_four_match_witness:
  "fst (Spawns_unpickle demo_env (StateDict (Spawns_pickle demo_env (Spawns_init ''db'')))
          (Spawns_init ''db'')) \<and>
   Spawns_unpickle demo_env FileNotFound (Spawns_init ''db'') = (False, Spawns_init ''db'') \<and>
   MoreSpawns_unpickle demo_env NotADict (MoreSpawns_init ''db'') = (False, MoreSpawns_init ''db'')"
proof -
  have m: "four_fields_match demo_env (Spawns_init ''db'') (Spawns_pickle demo_env (Spawns_init ''db''))"
    by (simp add: four_fields_match_def Spawns_pickle_def)
  have p: "st_alt_precision (Spawns_pickle demo_env (Spawns_init ''db'')) \<noteq> None"
    by (simp add: Spawns_pickle_def)
  have 1: "fst (Spawns_unpickle demo_env (StateDict (Spawns_pickle demo_env (Spawns_init ''db'')))
          (Spawns_init ''db''))"
    using m p
      unpickle_accepts_iff_four_match
        [where cfg = demo_env and loaded = "StateDict (Spawns_pickle demo_env (Spawns_init ''db''))"
           and s = "Spawns_init ''db''", THEN conjunct1]
    by blast
  have 2: "Spawns_unpickle demo_env FileNotFound (Spawns_init ''db'') = (False, Spawns_init ''db'')"
    using unpickle_accepts_iff_four_match
            [where cfg = demo_env and loaded = FileNotFound and s = "Spawns_init ''db''"]
    by blast
  have 3: "MoreSpawns_unpickle demo_env NotADict (MoreSpawns_init ''db'') = (False, MoreSpawns_init ''db'')"
    using unpickle_accepts_iff_four_match
            [where cfg = demo_env and loaded = NotADict and m = "MoreSpawns_init ''db''"]
    by blast
  show ?thesis using 1 2 3 by blast
qed

text \<open>
  C9: a snapshot whose four fields match and whose altitude precision differs from the
  configured one is accepted: \<open>unpickle\<close> returns true, \<open>known\<close>, \<open>unknown\<close> and
  \<open>despawn_times\<close> are the restored ones, and \<open>altitudes\<close> is the bulk result of
  \<open>get_all_altitudes()\<close>.
\<close>

theorem unpickle_reseeds_on_precision_change:
  assumes "st_alt_precision st = Some ap" and "ap \<noteq> ALT_PRECISION cfg"
  shows "(four_fields_match cfg s st \<longrightarrow>
            fst (Spawns_unpickle cfg (StateDict st) s) = True \<and>
            known (snd (Spawns_unpickle cfg (StateDict st) s)) = or_else (st_known st) (known s) \<and>
            unknown (snd (Spawns_unpickle cfg (StateDict st) s)) = or_else (st_unknown st) (unknown s) \<and>
            despawn_times (snd (Spawns_unpickle cfg (StateDict st) s))
              = or_else (st_despawn_times st) (despawn_times s) \<and>
            altitudes (snd (Spawns_unpickle cfg (StateDict st) s)) = get_all_altitudes cfg None)
       \<and> (four_fields_match cfg m st \<longrightarrow>
            fst (MoreSpawns_unpickle cfg (StateDict st) m) = True \<and>
            known (snd (MoreSpawns_unpickle cfg (StateDict st) m)) = or_else (st_known st) (known m) \<and>
            unknown (snd (MoreSpawns_unpickle cfg (StateDict st) m)) = or_else (st_unknown st) (unknown m) \<and>
            despawn_times (snd (MoreSpawns_unpickle cfg (StateDict st) m))
              = or_else (st_despawn_times st) (despawn_times m) \<and>
            altitudes (snd (MoreSpawns_unpickle cfg (StateDict st) m)) = get_all_altitudes cfg None)"
  using assms
  by (simp add: Spawns_unpickle_def MoreSpawns_unpickle_def unpickle_match
        Spawns_dict_update_def MoreSpawns_dict_update_def)

theorem unpickle_reseeds_on_precision_change_witness:
  "st_alt_precision stale_snapshot = Some 3 \<and> 3 \<noteq> ALT_PRECISION demo_env \<and>
   four_fields_match demo_env (Spawns_init ''db'') stale_snapshot \<and>
   fst (Spawns_unpickle demo_env (StateDict stale_snapshot) (Spawns_init ''db'')) = True \<and>
   known (snd (Spawns_unpickle demo_env (StateDict stale_snapshot) (Spawns_init ''db'')))
     = [((1, 2), Some (1, 100))] \<and>
   altitudes (snd (Spawns_unpickle demo_env (StateDict stale_snapshot) (Spawns_init ''db'')))
     = [((0, 0), 7)]"
proof -
  have a: "st_alt_precision stale_snapshot = Some 3"
    by (simp add: stale_snapshot_def Spawns_pickle_def)
  have b: "3 \<noteq> ALT_PRECISION demo_env" by (simp add: demo_env_def)
  have c: "four_fields_match demo_env (Spawns_init ''db'') stale_snapshot"
    by (simp add: stale_snapshot_def four_fields_match_def Spawns_init_def demo_env_def
          Spawns_pickle_def)
  have k: "or_else (st_known stale_snapshot) (known (Spawns_init ''db'')) = [((1, 2), Some (1, 100))]"
    by (simp add: stale_snapshot_def Spawns_pickle_def)
  have g: "get_all_altitudes demo_env None = [((0, 0), 7)]" by (simp add: demo_env_def)
  show ?thesis
    using a b c k g
      unpickle_reseeds_on_precision_change
        [OF a b, where s = "Spawns_init ''db''", THEN conjunct1]
    by simp
qed

text \<open>
  C7: what \<open>pickle\<close> writes, restored under the same configuration into an object of the
  same class version and store fingerprint, is accepted and gives back the same \<open>known\<close>,
  \<open>unknown\<close>, \<open>despawn_times\<close> and \<open>altitudes\<close> (and \<open>cell_points\<close> in
  \<open>MoreSpawns\<close>).
\<close>

theorem pickle_unpickle_roundtrip:
  assumes "class_version s' = class_version s" and "db_hash s' = db_hash s"
      and "class_version m' = class_version m" and "db_hash m' = db_hash m"
  shows "fst (Spawns_unpickle cfg (StateDict (Spawns_pickle cfg s)) s') = True \<and>
         known (snd (Spawns_unpickle cfg (StateDict (Spawns_pickle cfg s)) s')) = known s \<and>
         unknown (snd (Spawns_unpickle cfg (StateDict (Spawns_pickle cfg s)) s')) = unknown s \<and>
         despawn_times (snd (Spawns_unpickle cfg (StateDict (Spawns_pickle cfg s)) s')) = despawn_times s \<and>
         altitudes (snd (Spawns_unpickle cfg (StateDict (Spawns_pickle cfg s)) s')) = altitudes s \<and>
         fst (MoreSpawns_unpickle cfg (StateDict (MoreSpawns_pickle cfg m)) m') = True \<and>
         known (snd (MoreSpawns_unpickle cfg (StateDict (MoreSpawns_pickle cfg m)) m')) = known m \<and>
         unknown (snd (MoreSpawns_unpickle cfg (StateDict (MoreSpawns_pickle cfg m)) m')) = unknown m \<and>
         despawn_times (snd (MoreSpawns_unpickle cfg (StateDict (MoreSpawns_pickle cfg m)) m'))
           = despawn_times m \<and>
         altitudes (snd (MoreSpawns_unpickle cfg (StateDict (MoreSpawns_pickle cfg m)) m')) = altitudes m \<and>
         cell_points (snd (MoreSpawns_unpickle cfg (StateDict (MoreSpawns_pickle cfg m)) m'))
           = cell_points m"
proof -
  have s: "four_fields_match cfg s' (Spawns_pickle cfg s)"
    using assms by (simp add: four_fields_match_def Spawns_pickle_def)
  have m: "four_fields_match cfg m' (MoreSpawns_pickle cfg m)"
    using assms by (simp add: four_fields_match_def MoreSpawns_pickle_def)
  have s': "Spawns_unpickle cfg (StateDict (Spawns_pickle cfg s)) s'
              = (True, Spawns_dict_update (Spawns_pickle cfg s) s')"
    unfolding Spawns_unpickle_def unpickle_match [OF s] by (simp add: Spawns_pickle_def)
  have m': "MoreSpawns_unpickle cfg (StateDict (MoreSpawns_pickle cfg m)) m'
              = (True, MoreSpawns_dict_update (MoreSpawns_pickle cfg m) m')"
    unfolding MoreSpawns_unpickle_def unpickle_match [OF m] by (simp add: MoreSpawns_pickle_def)
  show ?thesis
    unfolding s' m'
    by (simp add: Spawns_dict_update_def MoreSpawns_dict_update_def Spawns_pickle_def
          MoreSpawns_pickle_def)
qed

theorem pickle_unpickle_roundtrip_witness:
  "fst (Spawns_unpickle demo_env (StateDict (Spawns_pickle demo_env demo_spawns)) (Spawns_init ''db''))
     = True \<and>
   known (snd (Spawns_unpickle demo_env (StateDict (Spawns_pickle demo_env demo_spawns))
                 (Spawns_init ''db''))) = [((1, 2), Some (1, 100)), ((3, 4), Some (2, 2000))] \<and>
   cell_points (snd (MoreSpawns_unpickle demo_env (StateDict (MoreSpawns_pickle demo_env demo_more))
                 (MoreSpawns_init ''db''))) = {(7, 8)}"
proof -
  have a: "class_version (Spawns_init ''db'') = class_version demo_spawns"
          "db_hash (Spawns_init ''db'') = db_hash demo_spawns"
          "class_version (MoreSpawns_init ''db'') = class_version demo_more"
          "db_hash (MoreSpawns_init ''db'') = db_hash demo_more"
    by (simp_all add: Spawns_init_def MoreSpawns_init_def demo_spawns_def demo_more_def)
  have k: "known demo_spawns = [((1, 2), Some (1, 100)), ((3, 4), Some (2, 2000))]"
          "cell_points demo_more = {(7, 8)}"
    by (simp_all add: demo_spawns_def demo_more_def Spawns_init_def MoreSpawns_init_def)
  show ?thesis
    using pickle_unpickle_roundtrip [OF a, where cfg = demo_env] by (simp add: k)
qed

section \<open>Reconciliation\<close>

lemma demo_update_known:
  "known (update demo_env demo_rows (Spawns_init ''db'')) = demo_known"
  "known (update demo_env demo_rows (MoreSpawns_init ''db'')) = demo_known"
  by (simp_all add: update_def demo_env_def demo_rows_def Spawns_init_def MoreSpawns_init_def
        query_def update_body_def Let_def demo_known_def)

lemma demo_update_despawn_times:
  "despawn_times (update demo_env demo_rows (Spawns_init ''db'')) = [(2, 200), (1, 100)]"
  by (simp add: update_def demo_env_def demo_rows_def Spawns_init_def
        query_def update_body_def Let_def)

lemma keys_dict_set: "set (map fst (dict_set d k v)) = insert k (set (map fst d))"
proof (induction d)
  case Nil
  show ?case by simp
next
  case (Cons e d)
  obtain k' v' where e: "e = (k', v')" by (cases e)
  show ?case
  proof (cases "k' = k")
    case True
    then show ?thesis by (simp add: e)
  next
    case False
    have "set (map fst ((k', v') # dict_set d k v)) = insert k' (set (map fst (dict_set d k v)))"
      by simp
    also have "\<dots> = insert k' (insert k (set (map fst d)))"
      by (simp only: Cons.IH)
    finally show ?thesis using False by (simp add: e insert_commute)
  qed
qed

lemma distinct_dict_set: "distinct (map fst d) \<Longrightarrow> distinct (map fst (dict_set d k v))"
proof (induction d)
  case Nil
  then show ?case by simp
next
  case (Cons e d)
  then show ?case
    by (cases e) (auto simp: keys_dict_set simp del: set_map)
qed

lemma map_of_fold_dict_set_other:
  "\<forall>x \<in> set xs. kf x \<noteq> k \<Longrightarrow>
   map_of (fold (\<lambda>x d. dict_set d (kf x) (vf x)) xs d) k = map_of d k"
  by (induction xs arbitrary: d) (auto simp: map_of_dict_set)

lemma map_of_fold_dict_set_last:
  assumes "\<forall>r \<in> set post. kf r \<noteq> kf x"
  shows "map_of (fold (\<lambda>x d. dict_set d (kf x) (vf x)) (pre @ x # post) d) (kf x) = Some (vf x)"
  using assms by (simp add: map_of_fold_dict_set_other map_of_dict_set)

lemma distinct_fold_dict_set:
  "distinct (map fst d) \<Longrightarrow> distinct (map fst (fold (\<lambda>x d. dict_set d (kf x) (vf x)) xs d))"
  by (induction xs arbitrary: d) (simp_all add: distinct_dict_set)

lemma update_body_untimed:
  "\<not> timed cfg spawn \<Longrightarrow>
   snd (update_body cfg alts spawn acc) = snd acc \<and>
   despawn_times (fst (update_body cfg alts spawn acc)) = despawn_times (fst acc)"
  by (auto simp: update_body_def timed_def Let_def split: option.splits)

lemma update_body_timed:
  "timed cfg spawn \<Longrightarrow>
   snd (update_body cfg alts spawn acc) =
     dict_set (snd acc) (sp_lat spawn, sp_lon spawn)
       (sp_spawn_id spawn,
        if sp_duration spawn = 60 then sp_despawn_time spawn
        else (sp_despawn_time spawn + 1800) mod 3600) \<and>
   despawn_times (fst (update_body cfg alts spawn acc)) =
     dict_set (despawn_times (fst acc)) (sp_spawn_id spawn) (sp_despawn_time spawn)"
  by (auto simp: update_body_def timed_def Let_def split: option.splits)

lemma fold_update_body:
  "snd (fold (update_body cfg alts) rows acc) =
     fold (\<lambda>spawn d. dict_set d (sp_lat spawn, sp_lon spawn)
             (sp_spawn_id spawn,
              if sp_duration spawn = 60 then sp_despawn_time spawn
              else (sp_despawn_time spawn + 1800) mod 3600))
          (filter (timed cfg) rows) (snd acc) \<and>
   despawn_times (fst (fold (update_body cfg alts) rows acc)) =
     fold (\<lambda>spawn d. dict_set d (sp_spawn_id spawn) (sp_despawn_time spawn))
          (filter (timed cfg) rows) (despawn_times (fst acc))"
proof (induction rows arbitrary: acc)
  case Nil
  then show ?case by simp
next
  case (Cons spawn rows)
  show ?case
  proof (cases "timed cfg spawn")
    case True
    then show ?thesis
      using Cons [of "update_body cfg alts spawn acc"] update_body_timed [OF True, of alts acc]
      by simp
  next
    case False
    then show ?thesis
      using Cons [of "update_body cfg alts spawn acc"] update_body_untimed [OF False, of alts acc]
      by simp
  qed
qed

lemma known_update:
  "known (update cfg rows self) =
     map (\<lambda>k. (fst k, Some (snd k)))
       (sort_key (\<lambda>k. snd (snd k))
          (fold (\<lambda>spawn d. dict_set d (sp_lat spawn, sp_lon spawn)
                   (sp_spawn_id spawn,
                    if sp_duration spawn = 60 then sp_despawn_time spawn
                    else (sp_despawn_time spawn + 1800) mod 3600))
                (filter (timed cfg) (query cfg rows)) []))"
  using fold_update_body [of cfg "altitudes self = []" "query cfg rows" "(self, [])"]
  by (simp add: update_def Let_def)

lemma despawn_times_update:
  "despawn_times (update cfg rows self) =
     fold (\<lambda>spawn d. dict_set d (sp_spawn_id spawn) (sp_despawn_time spawn))
          (filter (timed cfg) (query cfg rows)) (despawn_times self)"
  using fold_update_body [of cfg "altitudes self = []" "query cfg rows" "(self, [])"]
  by (simp add: update_def Let_def)

lemma map_of_sort_key:
  assumes "distinct (map fst d)"
  shows "map_of (sort_key f d) = map_of d"
proof -
  have "distinct (map fst (sort_key f d))"
    using assms by (simp add: distinct_map)
  then show ?thesis
    using assms by (simp add: map_of_inject_set)
qed

lemma map_of_map_Some:
  "map_of (map (\<lambda>k. (fst k, Some (snd k))) d) p = map_option Some (map_of d p)"
  by (induction d) auto

text \<open>
  C1, as stated, fails: for the half-hour record with raw despawn-second 200 the known
  mapping holds the shifted second 2000, but \<open>despawn_times\<close> holds the raw 200, not
  \<open>(200 + 1800) mod 3600\<close>.
\<close>

theorem update_stores_counterexample:
  "map_of (known (update demo_env demo_rows (Spawns_init ''db''))) (3, 4) = Some (Some (2, 2000)) \<and>
   map_of (despawn_times (update demo_env demo_rows (Spawns_init ''db''))) 2
     \<noteq> Some ((200 + 1800) mod 3600)"
  by (simp add: demo_update_known demo_update_despawn_times demo_known_def)

text \<open>
  C1, amended: let \<open>spawn\<close> be a record of the query that survives the boundary test and
  whose update timestamp is present, not zero and newer than the last-migration marker.
  Unless a later such record has the same point, the known mapping holds for its point the
  identifier with the despawn-second itself when the duration is 60, and with
  \<open>(raw + 1800) mod 3600\<close> otherwise. Unless a later such record has the same identifier,
  \<open>despawn_times\<close> holds for the identifier the raw despawn-second, unshifted.
\<close>

theorem update_stores:
  assumes "filter (timed cfg) (query cfg rows) = pre @ spawn # post"
  shows "((\<forall>r \<in> set post. (sp_lat r, sp_lon r) \<noteq> (sp_lat spawn, sp_lon spawn)) \<longrightarrow>
            map_of (known (update cfg rows self)) (sp_lat spawn, sp_lon spawn) =
              Some (Some (sp_spawn_id spawn,
                          if sp_duration spawn = 60 then sp_despawn_time spawn
                          else (sp_despawn_time spawn + 1800) mod 3600)))
       \<and> ((\<forall>r \<in> set post. sp_spawn_id r \<noteq> sp_spawn_id spawn) \<longrightarrow>
            map_of (despawn_times (update cfg rows self)) (sp_spawn_id spawn) =
              Some (sp_despawn_time spawn))"
proof (intro conjI impI)
  let ?kf = "\<lambda>spawn. (sp_lat spawn, sp_lon spawn)"
  let ?vf = "\<lambda>spawn. (sp_spawn_id spawn,
                       if sp_duration spawn = 60 then sp_despawn_time spawn
                       else (sp_despawn_time spawn + 1800) mod 3600)"
  let ?d = "fold (\<lambda>spawn d. dict_set d (?kf spawn) (?vf spawn)) (pre @ spawn # post) []"
  assume "\<forall>r \<in> set post. (sp_lat r, sp_lon r) \<noteq> (sp_lat spawn, sp_lon spawn)"
  then have "map_of ?d (?kf spawn) = Some (?vf spawn)"
    by (rule map_of_fold_dict_set_last [where kf = ?kf and vf = ?vf])
  moreover have "distinct (map fst ?d)"
    by (rule distinct_fold_dict_set) simp
  ultimately show "map_of (known (update cfg rows self)) (sp_lat spawn, sp_lon spawn) =
              Some (Some (sp_spawn_id spawn,
                          if sp_duration spawn = 60 then sp_despawn_time spawn
                          else (sp_despawn_time spawn + 1800) mod 3600))"
    unfolding known_update assms map_of_map_Some by (simp add: map_of_sort_key)
next
  assume "\<forall>r \<in> set post. sp_spawn_id r \<noteq> sp_spawn_id spawn"
  then show "map_of (despawn_times (update cfg rows self)) (sp_spawn_id spawn) =
              Some (sp_despawn_time spawn)"
    unfolding despawn_times_update assms
    by (rule map_of_fold_dict_set_last [where kf = sp_spawn_id and vf = sp_despawn_time])
qed


theorem update_stores_witness:
  "filter (timed demo_env) (query demo_env demo_rows) = [] @ hd demo_rows # [demo_rows ! 1] \<and>
   map_of (known (update demo_env demo_rows (Spawns_init ''db''))) (3, 4) = Some (Some (2, 2000)) \<and>
   map_of (despawn_times (update demo_env demo_rows (Spawns_init ''db''))) 2 = Some 200"
proof -
  have f: "filter (timed demo_env) (query demo_env demo_rows) = [] @ hd demo_rows # [demo_rows ! 1]"
    by (simp add: timed_def query_def demo_env_def demo_rows_def)
  have p: "\<forall>r \<in> set [demo_rows ! 1]. (sp_lat r, sp_lon r) \<noteq> (sp_lat (hd demo_rows), sp_lon (hd demo_rows))"
    by (simp add: demo_rows_def)
  have i: "\<forall>r \<in> set [demo_rows ! 1]. sp_spawn_id r \<noteq> sp_spawn_id (hd demo_rows)"
    by (simp add: demo_rows_def)
  have 1: "map_of (known (update demo_env demo_rows (Spawns_init ''db''))) (3, 4) = Some (Some (2, 2000))"
    using update_stores [OF f, THEN conjunct1, THEN mp, OF p, of "Spawns_init ''db''"]
    by (simp add: demo_rows_def)
  have 2: "map_of (despawn_times (update demo_env demo_rows (Spawns_init ''db''))) 2 = Some 200"
    using update_stores [OF f, THEN conjunct2, THEN mp, OF i, of "Spawns_init ''db''"]
    by (simp add: demo_rows_def)
  show ?thesis using f 1 2 by blast
qed

section \<open>The order of the known mapping\<close>

lemma stored_seconds_append:
  "stored_seconds (xs @ ys) = stored_seconds xs @ stored_seconds ys"
  by (induction xs rule: stored_seconds.induct) simp_all

lemma stored_seconds_map_Some:
  "stored_seconds (map (\<lambda>k. (fst k, Some (snd k))) d) = map (\<lambda>k. snd (snd k)) d"
  by (induction d) simp_all

lemma known_sorted_update: "known_sorted (known (update cfg rows self))"
  unfolding known_update known_sorted_def stored_seconds_map_Some
  by (simp add: list_all_iff)

lemma set_stored_seconds_placeholder:
  "set (stored_seconds (dict_set d k None)) \<subseteq> set (stored_seconds d)"
  by (induction d rule: stored_seconds.induct) auto

lemma sorted_stored_seconds_placeholder:
  "sorted (stored_seconds d) \<Longrightarrow> sorted (stored_seconds (dict_set d k None))"
proof (induction d rule: stored_seconds.induct)
  case 1
  then show ?case by simp
next
  case (2 p d)
  then show ?case by simp
next
  case (3 p entry d)
  then show ?case
    using set_stored_seconds_placeholder [of d k] by auto
qed

lemma last_stored_max:
  assumes "sorted (stored_seconds d)" and "d \<noteq> []" and "snd (last d) = Some (i, sec)"
  shows "Max (set (stored_seconds d)) = sec"
proof -
  have "d = butlast d @ [(fst (last d), Some (i, sec))]"
    using assms(2,3) by (metis append_butlast_last_id prod.collapse)
  then have eq: "stored_seconds d = stored_seconds (butlast d) @ [sec]"
    by (metis stored_seconds_append stored_seconds.simps(1,3) snd_conv)
  then have "\<forall>x \<in> set (stored_seconds (butlast d)). x \<le> sec"
    using assms(1) by (simp add: sorted_append)
  then show ?thesis
    unfolding eq by (auto intro: Max_eqI)
qed

lemma dict_set_new: "k \<notin> set (map fst d) \<Longrightarrow> dict_set d k v = d @ [(k, v)]"
  by (induction d) auto

lemma dict_set_keys_present:
  "k \<in> set (map fst d) \<Longrightarrow> map fst (dict_set d k v) = map fst d"
proof (induction d)
  case Nil
  then show ?case by simp
next
  case (Cons e d)
  obtain k' v' where e: "e = (k', v')" by (cases e)
  show ?case
  proof (cases "k' = k")
    case True
    then show ?thesis by (simp add: e)
  next
    case False
    then have "k \<in> set (map fst d)" using Cons.prems by (simp add: e)
    then have "map fst (dict_set d k v) = map fst d" by (rule Cons.IH)
    then show ?thesis using False by (simp add: e)
  qed
qed

lemma dict_set_member: "(k, v) \<in> set (dict_set d k v)"
  by (induction d) auto

lemma placeholder_not_sorted: "\<not> known_sorted (dict_set d k None)"
proof
  assume "known_sorted (dict_set d k None)"
  then have "\<forall>e \<in> set (dict_set d k None). snd e \<noteq> None"
    by (simp add: known_sorted_def list_all_iff)
  then show False using dict_set_member [of k None d] by fastforce
qed

text \<open>
  C8, as stated, fails: right after \<open>update\<close> the mapping is sorted; \<open>MoreSpawns.add_known\<close>
  for a new point then appends a placeholder, so the mapping is no longer sorted by second
  and its last entry carries no second at all.
\<close>

theorem placeholder_breaks_order_counterexample:
  "known_sorted (known (update demo_env demo_rows (MoreSpawns_init ''db''))) \<and>
   \<not> known_sorted
        (known (MoreSpawns_add_known 9 300 (5, 6) (update demo_env demo_rows (MoreSpawns_init ''db'')))) \<and>
   snd (last (known (MoreSpawns_add_known 9 300 (5, 6)
                       (update demo_env demo_rows (MoreSpawns_init ''db''))))) = None"
  by (simp add: MoreSpawns_add_known_def demo_update_known demo_known_def known_sorted_def)

text \<open>
  C8, amended: right after \<open>update\<close> the known mapping has no placeholder and is sorted
  ascending by second. \<open>add_known\<close> and \<open>add_unknown\<close> of \<open>Spawns\<close> and \<open>add_unknown\<close>
  of \<open>MoreSpawns\<close> leave the mapping as it is. \<open>MoreSpawns.add_known\<close> writes a
  placeholder for its point and leaves the entry of every other point as it was: a new
  point is appended at the end, so that the last entry carries no second, and a point that
  is already a key keeps its place. The mapping is then not sorted any more, but the seconds
  of the entries that carry one stay in ascending order. Whenever the seconds ascend and the
  last entry is not a placeholder, the last entry carries the maximum stored second.
\<close>

theorem known_order:
  "known_sorted (known (update cfg rows self))
   \<and> known (Spawns_add_known sid dtime pt s) = known s
   \<and> known (Spawns_add_unknown pt s) = known s
   \<and> known (MoreSpawns_add_unknown pt m) = known m
   \<and> map_of (known (MoreSpawns_add_known sid dtime pt m)) pt = Some None
   \<and> (\<forall>q. q \<noteq> pt \<longrightarrow>
         map_of (known (MoreSpawns_add_known sid dtime pt m)) q = map_of (known m) q)
   \<and> (pt \<notin> set (map fst (known m)) \<longrightarrow>
         known (MoreSpawns_add_known sid dtime pt m) = known m @ [(pt, None)] \<and>
         snd (last (known (MoreSpawns_add_known sid dtime pt m))) = None)
   \<and> (pt \<in> set (map fst (known m)) \<longrightarrow>
         map fst (known (MoreSpawns_add_known sid dtime pt m)) = map fst (known m))
   \<and> \<not> known_sorted (known (MoreSpawns_add_known sid dtime pt m))
   \<and> (sorted (stored_seconds (known m)) \<longrightarrow>
        sorted (stored_seconds (known (MoreSpawns_add_known sid dtime pt m))))
   \<and> (\<forall>i sec. sorted (stored_seconds (known m)) \<and> known m \<noteq> [] \<and>
                snd (last (known m)) = Some (i, sec) \<longrightarrow>
                Max (set (stored_seconds (known m))) = sec)"
proof -
  have k: "known (MoreSpawns_add_known sid dtime pt m) = dict_set (known m) pt None"
    by (simp add: MoreSpawns_add_known_def)
  have 1: "known_sorted (known (update cfg rows self))" by (rule known_sorted_update)
  have 2: "known (Spawns_add_known sid dtime pt s) = known s" by (simp add: Spawns_add_known_def)
  have 3: "known (Spawns_add_unknown pt s) = known s" by (simp add: Spawns_add_unknown_def)
  have 4: "known (MoreSpawns_add_unknown pt m) = known m" by (simp add: MoreSpawns_add_unknown_def)
  have 5: "map_of (known (MoreSpawns_add_known sid dtime pt m)) pt = Some None"
    unfolding k by (simp add: map_of_dict_set)
  have 6: "\<forall>q. q \<noteq> pt \<longrightarrow>
         map_of (known (MoreSpawns_add_known sid dtime pt m)) q = map_of (known m) q"
    unfolding k by (simp add: map_of_dict_set)
  have 7: "pt \<notin> set (map fst (known m)) \<longrightarrow>
         known (MoreSpawns_add_known sid dtime pt m) = known m @ [(pt, None)] \<and>
         snd (last (known (MoreSpawns_add_known sid dtime pt m))) = None"
    unfolding k by (simp add: dict_set_new del: set_map)
  have 8: "pt \<in> set (map fst (known m)) \<longrightarrow>
         map fst (known (MoreSpawns_add_known sid dtime pt m)) = map fst (known m)"
    unfolding k by (rule impI) (rule dict_set_keys_present)
  have 9: "\<not> known_sorted (known (MoreSpawns_add_known sid dtime pt m))"
    unfolding k by (rule placeholder_not_sorted)
  have 10: "sorted (stored_seconds (known m)) \<longrightarrow>
        sorted (stored_seconds (known (MoreSpawns_add_known sid dtime pt m)))"
    unfolding k by (simp add: sorted_stored_seconds_placeholder)
  have 11: "\<forall>i sec. sorted (stored_seconds (known m)) \<and> known m \<noteq> [] \<and>
                snd (last (known m)) = Some (i, sec) \<longrightarrow>
                Max (set (stored_seconds (known m))) = sec"
    using last_stored_max by blast
  show ?thesis using 1 2 3 4 5 6 7 8 9 10 11 by blast
qed

theorem known_order_witness:
  "known_sorted (known (update demo_env demo_rows (MoreSpawns_init ''db''))) \<and>
   known (update demo_env demo_rows (MoreSpawns_init ''db''))
     = [((1, 2), Some (1, 100)), ((3, 4), Some (2, 2000))] \<and>
   (5, 6) \<notin> set (map fst (known (update demo_env demo_rows (MoreSpawns_init ''db'')))) \<and>
   known (MoreSpawns_add_known 9 300 (5, 6) (update demo_env demo_rows (MoreSpawns_init ''db'')))
     = [((1, 2), Some (1, 100)), ((3, 4), Some (2, 2000)), ((5, 6), None)] \<and>
   (3, 4) \<in> set (map fst (known (update demo_env demo_rows (MoreSpawns_init ''db'')))) \<and>
   map fst (known (MoreSpawns_add_known 2 200 (3, 4)
                     (update demo_env demo_rows (MoreSpawns_init ''db''))))
     = [(1, 2), (3, 4)] \<and>
   map_of (known (MoreSpawns_add_known 2 200 (3, 4)
                     (update demo_env demo_rows (MoreSpawns_init ''db'')))) (3, 4) = Some None \<and>
   sorted (stored_seconds (known (update demo_env demo_rows (MoreSpawns_init ''db'')))) \<and>
   sorted (stored_seconds (known (MoreSpawns_add_known 9 300 (5, 6)
                                    (update demo_env demo_rows (MoreSpawns_init ''db''))))) \<and>
   snd (last (known (update demo_env demo_rows (MoreSpawns_init ''db'')))) = Some (2, 2000) \<and>
   Max (set (stored_seconds (known (update demo_env demo_rows (MoreSpawns_init ''db''))))) = 2000"
proof -
  let ?m = "update demo_env demo_rows (MoreSpawns_init ''db'')"
  have kn: "known ?m = [((1, 2), Some (1, 100)), ((3, 4), Some (2, 2000))]"
    by (simp add: demo_update_known demo_known_def)
  have new: "(5, 6) \<notin> set (map fst (known ?m))"
    and old: "(3, 4) \<in> set (map fst (known ?m))"
    and srt: "sorted (stored_seconds (known ?m))"
    and ne: "known ?m \<noteq> []"
    and lst: "snd (last (known ?m)) = Some (2, 2000)"
    by (simp_all add: kn)
  note a = known_order [where cfg = demo_env and rows = demo_rows
             and self = "MoreSpawns_init ''db''" and m = ?m and sid = 9 and dtime = 300
             and pt = "(5, 6)" and s = demo_spawns]
  note b = known_order [where cfg = demo_env and rows = demo_rows
             and self = "MoreSpawns_init ''db''" and m = ?m and sid = 2 and dtime = 200
             and pt = "(3, 4)" and s = demo_spawns]
  have 1: "known_sorted (known ?m)" using a by blast
  have 2: "known (MoreSpawns_add_known 9 300 (5, 6) ?m)
             = [((1, 2), Some (1, 100)), ((3, 4), Some (2, 2000)), ((5, 6), None)]"
  proof -
    have "known (MoreSpawns_add_known 9 300 (5, 6) ?m) = known ?m @ [((5, 6), None)]"
      using a new by blast
    then show ?thesis by (simp add: kn)
  qed
  have 3: "map fst (known (MoreSpawns_add_known 2 200 (3, 4) ?m)) = [(1, 2), (3, 4)]"
  proof -
    have "map fst (known (MoreSpawns_add_known 2 200 (3, 4) ?m)) = map fst (known ?m)"
      using b old by blast
    then show ?thesis by (simp add: kn)
  qed
  have 4: "map_of (known (MoreSpawns_add_known 2 200 (3, 4) ?m)) (3, 4) = Some None"
    using b by blast
  have 5: "sorted (stored_seconds (known (MoreSpawns_add_known 9 300 (5, 6) ?m)))"
    using a srt by blast
  have 6: "Max (set (stored_seconds (known ?m))) = 2000"
    using a srt ne lst by blast
  show ?thesis using 1 kn new 2 old 3 4 srt 5 lst 6 by blast
qed

section \<open>\<open>after_last\<close>\<close>

text \<open>
  C5, as stated, fails: after \<open>update\<close> on the two records with seconds 100 and 2000 and
  \<open>MoreSpawns.add_known\<close> for a new point, the last entry is a placeholder and
  \<open>after_last\<close> is false at second-of-hour 2500, which exceeds the maximum stored second.
\<close>

theorem after_last_ignores_maximum_counterexample:
  "\<not> (after_last (MoreSpawns_add_known 9 300 (5, 6)
                    (update demo_env demo_rows (MoreSpawns_init ''db''))) 2500
       \<longleftrightarrow> real_of_int (Max (set (stored_seconds
              (known (MoreSpawns_add_known 9 300 (5, 6)
                        (update demo_env demo_rows (MoreSpawns_init ''db''))))))) < second_of_hour 2500)"
  by (simp add: after_last_def MoreSpawns_add_known_def demo_update_known demo_known_def
        second_of_hour_def)

text \<open>
  C5, amended: \<open>after_last\<close> returns true exactly when the known mapping is not empty,
  its last entry is not a placeholder and the current second-of-hour exceeds the second of
  that last entry; for a non-empty sorted mapping (as \<open>update\<close> leaves it) that second is
  the maximum stored one. With the seconds 100 and 2000 after \<open>update\<close>, it is true at
  second-of-hour 2500 and false at 50 (the witness).
\<close>

theorem after_last_last_entry:
  assumes "distinct (map fst (known self))"
  shows "(after_last self now \<longleftrightarrow>
            (\<exists>p i sec. known self \<noteq> [] \<and> last (known self) = (p, Some (i, sec)) \<and>
                        real_of_int sec < second_of_hour now))
       \<and> (known_sorted (known self) \<and> known self \<noteq> [] \<longrightarrow>
            (after_last self now \<longleftrightarrow>
               real_of_int (Max (set (stored_seconds (known self)))) < second_of_hour now))"
proof -
  have first: "after_last self now \<longleftrightarrow>
            (\<exists>p i sec. known self \<noteq> [] \<and> last (known self) = (p, Some (i, sec)) \<and>
                        real_of_int sec < second_of_hour now)"
  proof (cases "known self = []")
    case True
    then show ?thesis by (simp add: after_last_def)
  next
    case False
    obtain p v where l: "last (known self) = (p, v)" by (cases "last (known self)")
    have k: "known self = butlast (known self) @ [(p, v)]"
      using False l by (metis append_butlast_last_id)
    have r: "rev (map fst (known self)) = p # rev (map fst (butlast (known self)))"
      by (subst k) simp
    have "(p, v) \<in> set (known self)" using False l by (metis last_in_set)
    then have m: "map_of (known self) p = Some v"
      using assms by (rule map_of_is_SomeI [rotated])
    show ?thesis
      using False by (cases v) (auto simp: after_last_def r m l)
  qed
  have second: "after_last self now \<longleftrightarrow>
               real_of_int (Max (set (stored_seconds (known self)))) < second_of_hour now"
    if s: "known_sorted (known self)" and ne: "known self \<noteq> []"
  proof -
    have "last (known self) \<in> set (known self)" using ne by simp
    then have "snd (last (known self)) \<noteq> None"
      using s by (simp add: known_sorted_def list_all_iff)
    then obtain p i sec where l: "last (known self) = (p, Some (i, sec))"
      by (cases "last (known self)") auto
    have "Max (set (stored_seconds (known self))) = sec"
      using s ne l by (intro last_stored_max [where i = i]) (simp_all add: known_sorted_def)
    then show ?thesis using first l ne by simp
  qed
  show ?thesis using first second by blast
qed

theorem after_last_last_entry_witness:
  "distinct (map fst (known (update demo_env demo_rows (Spawns_init ''db'')))) \<and>
   known_sorted (known (update demo_env demo_rows (Spawns_init ''db''))) \<and>
   known (update demo_env demo_rows (Spawns_init ''db'')) \<noteq> [] \<and>
   Max (set (stored_seconds (known (update demo_env demo_rows (Spawns_init ''db''))))) = 2000 \<and>
   after_last (update demo_env demo_rows (Spawns_init ''db'')) 2500 \<and>
   \<not> after_last (update demo_env demo_rows (Spawns_init ''db'')) 50"
proof -
  let ?s = "update demo_env demo_rows (Spawns_init ''db'')"
  have d: "distinct (map fst (known ?s))"
    and s: "known_sorted (known ?s)"
    and n: "known ?s \<noteq> []"
    and m: "Max (set (stored_seconds (known ?s))) = 2000"
    by (simp_all add: demo_update_known demo_known_def known_sorted_def)
  have 1: "after_last ?s 2500"
    using after_last_last_entry [OF d, of 2500, THEN conjunct2] s n
    by (simp add: m second_of_hour_def)
  have 2: "\<not> after_last ?s 50"
    using after_last_last_entry [OF d, of 50, THEN conjunct2] s n
    by (simp add: m second_of_hour_def)
  show ?thesis using d s n m 1 2 by blast
qed

section \<open>Buckets\<close>

lemma last_call_for_snoc:
  "last_call_for p (cs @ [c]) = (if call_point c = p then Some c else last_call_for p cs)"
  by (simp add: last_call_for_def)

lemma last_call_for_named:
  "p \<in> call_point ` set cs \<Longrightarrow> \<exists>c. last_call_for p cs = Some c \<and> call_point c = p"
proof (induction cs rule: rev_induct)
  case Nil
  then show ?case by simp
next
  case (snoc c cs)
  then show ?case by (auto simp: last_call_for_snoc)
qed

lemma Spawns_call_known: "known (fold Spawns_call cs s) = known s"
proof (induction cs rule: rev_induct)
  case Nil
  show ?case by simp
next
  case (snoc c cs)
  then show ?case
    by (cases c) (simp_all add: Spawns_add_known_def Spawns_add_unknown_def)
qed

lemma Spawns_call_unknown:
  "p \<in> unknown (Spawns_call c s) \<longleftrightarrow>
     (if call_point c = p then is_add_unknown c else p \<in> unknown s)"
  by (cases c) (auto simp: Spawns_add_known_def Spawns_add_unknown_def)

lemma MoreSpawns_call_unknown:
  "p \<in> unknown (MoreSpawns_call c m) \<longleftrightarrow>
     (if call_point c = p then is_add_unknown c else p \<in> unknown m)"
  by (cases c) (auto simp: MoreSpawns_add_known_def MoreSpawns_add_unknown_def)

lemma MoreSpawns_call_cell_points:
  "p \<in> cell_points (MoreSpawns_call c m) \<longleftrightarrow> call_point c \<noteq> p \<and> p \<in> cell_points m"
  by (cases c) (auto simp: MoreSpawns_add_known_def MoreSpawns_add_unknown_def)

lemma MoreSpawns_call_known:
  "p \<in> set (map fst (known (MoreSpawns_call c m))) \<longleftrightarrow>
     (call_point c = p \<and> \<not> is_add_unknown c) \<or> p \<in> set (map fst (known m))"
  by (cases c) (auto simp: MoreSpawns_add_known_def MoreSpawns_add_unknown_def keys_dict_set
                     simp del: set_map)

lemma Spawns_run_unknown:
  "last_call_for p cs = Some c \<Longrightarrow> p \<in> unknown (fold Spawns_call cs s) \<longleftrightarrow> is_add_unknown c"
proof (induction cs arbitrary: c rule: rev_induct)
  case Nil
  then show ?case by (simp add: last_call_for_def)
next
  case (snoc x cs)
  then show ?case
    by (auto simp: last_call_for_snoc Spawns_call_unknown split: if_splits)
qed

lemma MoreSpawns_run:
  "last_call_for p cs = Some c \<Longrightarrow>
     (p \<in> unknown (fold MoreSpawns_call cs m) \<longleftrightarrow> is_add_unknown c) \<and>
     p \<notin> cell_points (fold MoreSpawns_call cs m) \<and>
     (\<not> is_add_unknown c \<longrightarrow> p \<in> set (map fst (known (fold MoreSpawns_call cs m))))"
proof (induction cs arbitrary: c rule: rev_induct)
  case Nil
  then show ?case by (simp add: last_call_for_def)
next
  case (snoc x cs)
  show ?case
  proof (cases "call_point x = p")
    case True
    then have "c = x" using snoc.prems by (simp add: last_call_for_snoc)
    then show ?thesis
      using True
      by (simp add: MoreSpawns_call_unknown MoreSpawns_call_cell_points MoreSpawns_call_known
               del: set_map)
  next
    case False
    then have "last_call_for p cs = Some c" using snoc.prems by (simp add: last_call_for_snoc)
    from snoc.IH [OF this] show ?thesis
      using False
      by (simp add: MoreSpawns_call_unknown MoreSpawns_call_cell_points MoreSpawns_call_known
               del: set_map)
  qed
qed

text \<open>
  C2, as stated, fails in both registries: in \<open>Spawns\<close>, after \<open>add_known\<close> on a new
  registry the point is in no bucket; in \<open>MoreSpawns\<close>, after \<open>add_known\<close> and then
  \<open>add_unknown\<close> for the same point it is in two, known and unknown.
\<close>

theorem buckets_counterexample:
  "Spawns_buckets (fold Spawns_call [AddKnown 1 100 (1, 2)] (Spawns_init ''db'')) (1, 2) = 0 \<and>
   MoreSpawns_buckets
     (fold MoreSpawns_call [AddKnown 1 100 (1, 2), AddUnknown (1, 2)] (MoreSpawns_init ''db''))
     (1, 2) = 2"
  by (simp add: Spawns_buckets_def MoreSpawns_buckets_def Spawns_add_known_def Spawns_init_def
        MoreSpawns_init_def MoreSpawns_add_known_def MoreSpawns_add_unknown_def)

text \<open>
  C2, amended: after a sequence of calls, for a point \<open>p\<close> named by one of them. In
  \<open>Spawns\<close> the known mapping is the one before the calls, and \<open>p\<close> is in unknown exactly
  when the last call naming it was \<open>add_unknown\<close>. In \<open>MoreSpawns\<close>, \<open>p\<close> is not in
  \<open>cell_points\<close>; when the last call naming it was \<open>add_known\<close> it is in exactly one
  bucket, known; when it was \<open>add_unknown\<close> it is in unknown.
\<close>

theorem buckets_after_calls:
  assumes "p \<in> call_point ` set cs"
  shows "known (fold Spawns_call cs s) = known s
       \<and> (p \<in> unknown (fold Spawns_call cs s)
            \<longleftrightarrow> (\<exists>c. last_call_for p cs = Some c \<and> is_add_unknown c))
       \<and> p \<notin> cell_points (fold MoreSpawns_call cs m)
       \<and> (\<forall>c. last_call_for p cs = Some c \<and> \<not> is_add_unknown c \<longrightarrow>
              MoreSpawns_buckets (fold MoreSpawns_call cs m) p = 1 \<and>
              p \<in> set (map fst (known (fold MoreSpawns_call cs m))))
       \<and> (\<forall>c. last_call_for p cs = Some c \<and> is_add_unknown c \<longrightarrow>
              p \<in> unknown (fold MoreSpawns_call cs m))"
proof -
  obtain c where c: "last_call_for p cs = Some c"
    using last_call_for_named [OF assms] by blast
  note m = MoreSpawns_run [OF c, of m]
  have 1: "known (fold Spawns_call cs s) = known s" by (rule Spawns_call_known)
  have 2: "p \<in> unknown (fold Spawns_call cs s)
            \<longleftrightarrow> (\<exists>c. last_call_for p cs = Some c \<and> is_add_unknown c)"
    using Spawns_run_unknown [OF c, of s] c by simp
  have 3: "p \<notin> cell_points (fold MoreSpawns_call cs m)" using m by blast
  have 4: "\<forall>c. last_call_for p cs = Some c \<and> \<not> is_add_unknown c \<longrightarrow>
              MoreSpawns_buckets (fold MoreSpawns_call cs m) p = 1 \<and>
              p \<in> set (map fst (known (fold MoreSpawns_call cs m)))"
    using m c by (simp add: MoreSpawns_buckets_def del: set_map)
  have 5: "\<forall>c. last_call_for p cs = Some c \<and> is_add_unknown c \<longrightarrow>
              p \<in> unknown (fold MoreSpawns_call cs m)"
    using m c by simp
  show ?thesis using 1 2 3 4 5 by blast
qed


theorem buckets_after_calls_witness:
  "(5, 6) \<in> call_point ` set [AddUnknown (5, 6), AddKnown 9 300 (5, 6)] \<and>
   (5, 6) \<notin> unknown (fold Spawns_call [AddUnknown (5, 6), AddKnown 9 300 (5, 6)] demo_spawns) \<and>
   (5, 6) \<notin> cell_points (fold MoreSpawns_call [AddUnknown (5, 6), AddKnown 9 300 (5, 6)] demo_more) \<and>
   MoreSpawns_buckets (fold MoreSpawns_call [AddUnknown (5, 6), AddKnown 9 300 (5, 6)] demo_more)
     (5, 6) = 1"
proof -
  let ?cs = "[AddUnknown (5, 6), AddKnown 9 300 (5, 6)]"
  have n: "(5, 6) \<in> call_point ` set ?cs" by simp
  have l: "last_call_for (5, 6) ?cs = Some (AddKnown 9 300 (5, 6))"
    by (simp add: last_call_for_def)
  note t = buckets_after_calls [OF n, of demo_spawns demo_more]
  have 1: "(5, 6) \<notin> unknown (fold Spawns_call ?cs demo_spawns)"
    using t l by auto
  have 2: "(5, 6) \<notin> cell_points (fold MoreSpawns_call ?cs demo_more)"
    using t by blast
  have 3: "MoreSpawns_buckets (fold MoreSpawns_call ?cs demo_more) (5, 6) = 1"
    using t l by auto
  show ?thesis using n 1 2 3 by blast
qed

end
